theory Spec2Isabelle
  imports Main "HOL-Library.Word"
begin

section \<open>The module-bound allocator (\<^verbatim>\<open>kj::modulebound_allocator\<close>)\<close>

text \<open>
  A shallow embedding of \<^verbatim>\<open>modulebound_allocator_fwddecl.h\<close> and
  \<^verbatim>\<open>modulebound_allocator.h\<close>. The template parameters of a specialization are
  ordinary values here (an element type and a policy), what the templates compute at compile
  time are functions of them, and the member functions are state transformers on the
  allocator objects of the program.
\<close>

subsection \<open>Element types and the standard type traits the header uses\<close>

text \<open>
  The types an allocator may be specialized for, as far as the traits of
  \<^verbatim>\<open><type_traits>\<close> used by the header can tell them apart. A const qualifier sits
  on a scalar, class or pointer type (the flag); on an array type it is the qualifier of the
  element type, as in C++, so a const array is an array of const elements. An array has an
  element type and a bound (\<open>None\<close> for \<^verbatim>\<open>T[]\<close>).
\<close>

datatype cpp_type =
    Void
  | Named string bool
  | Pointer cpp_type bool
  | Array cpp_type "nat option"
  | LRef cpp_type
  | RRef cpp_type

text \<open>\<^verbatim>\<open>std::is_array<T>::value\<close>: true for \<^verbatim>\<open>U[N]\<close> and \<^verbatim>\<open>U[]\<close> only.\<close>

fun is_array :: "cpp_type \<Rightarrow> bool" where
  "is_array (Array _ _) = True"
| "is_array _ = False"

text \<open>\<^verbatim>\<open>std::remove_reference<T>::type\<close>.\<close>

fun remove_reference :: "cpp_type \<Rightarrow> cpp_type" where
  "remove_reference (LRef t) = t"
| "remove_reference (RRef t) = t"
| "remove_reference t = t"

text \<open>\<^verbatim>\<open>std::is_reference<T>::value\<close>.\<close>

fun is_reference :: "cpp_type \<Rightarrow> bool" where
  "is_reference (LRef _) = True"
| "is_reference (RRef _) = True"
| "is_reference _ = False"

text \<open>\<^verbatim>\<open>std::remove_all_extents<T>::type\<close>.\<close>

fun remove_all_extents :: "cpp_type \<Rightarrow> cpp_type" where
  "remove_all_extents (Array t _) = remove_all_extents t"
| "remove_all_extents t = t"

text \<open>\<^verbatim>\<open>detail::remove_reference_and_all_extents<T>::type\<close>.\<close>

definition remove_reference_and_all_extents :: "cpp_type \<Rightarrow> cpp_type" where
  "remove_reference_and_all_extents T = remove_all_extents (remove_reference T)"

text \<open>
  Two element types differ only in constness when they agree once every const qualifier is
  dropped, and only in value category when they agree once the reference is dropped; they
  differ in nothing but these two when they agree once both are dropped.
\<close>

fun strip_const :: "cpp_type \<Rightarrow> cpp_type" where
  "strip_const Void = Void"
| "strip_const (Named n c) = Named n False"
| "strip_const (Pointer t c) = Pointer (strip_const t) False"
| "strip_const (Array t n) = Array (strip_const t) n"
| "strip_const (LRef t) = LRef (strip_const t)"
| "strip_const (RRef t) = RRef (strip_const t)"

definition differ_only_in_constness :: "cpp_type \<Rightarrow> cpp_type \<Rightarrow> bool" where
  "differ_only_in_constness T U \<longleftrightarrow> strip_const T = strip_const U"

definition differ_only_in_value_category :: "cpp_type \<Rightarrow> cpp_type \<Rightarrow> bool" where
  "differ_only_in_value_category T U \<longleftrightarrow> remove_reference T = remove_reference U"

definition differ_only_in_constness_or_value_category :: "cpp_type \<Rightarrow> cpp_type \<Rightarrow> bool" where
  "differ_only_in_constness_or_value_category T U \<longleftrightarrow>
     strip_const (remove_reference T) = strip_const (remove_reference U)"

subsection \<open>The allocation policy and its resolution\<close>

text \<open>\<^verbatim>\<open>enum raw_allocation_type\<close>, with the values the header gives its enumerators.\<close>

datatype raw_allocation_type =
    raw_allocation_single
  | raw_allocation_array
  | raw_allocation_deduce

fun raw_allocation_value :: "raw_allocation_type \<Rightarrow> nat" where
  "raw_allocation_value raw_allocation_single = 0"
| "raw_allocation_value raw_allocation_array = 1"
| "raw_allocation_value raw_allocation_deduce = 2"

text \<open>
  A specialization \<^verbatim>\<open>modulebound_allocator<T, RawAllocation>\<close>: the element type and the
  policy constant \<^verbatim>\<open>RawAllocation::value\<close>.
\<close>

type_synonym specialization = "cpp_type \<times> raw_allocation_type"

text \<open>
  The default second template argument of the forward declaration: the policy is pinned from
  \<^verbatim>\<open>std::is_array<T>\<close> once, for all rebinding levels.
\<close>

definition default_RawAllocation :: "cpp_type \<Rightarrow> raw_allocation_type" where
  "default_RawAllocation T = (if is_array T then raw_allocation_array else raw_allocation_single)"

text \<open>
  \<^verbatim>\<open>modulebound_allocator_base<T, RawAllocation>::is_array_allocation::value\<close>: the
  enumerator converts to \<^verbatim>\<open>bool\<close> when the policy is not \<^verbatim>\<open>raw_allocation_deduce\<close>.
\<close>

definition is_array_allocation :: "specialization \<Rightarrow> bool" where
  "is_array_allocation S =
     (if raw_allocation_value (snd S) = raw_allocation_value raw_allocation_deduce
      then is_array (fst S)
      else raw_allocation_value (snd S) \<noteq> 0)"

text \<open>\<^verbatim>\<open>rebind<U>::other\<close>: the specialization for \<open>U\<close> with the same policy argument.\<close>

definition rebind :: "specialization \<Rightarrow> cpp_type \<Rightarrow> specialization" where
  "rebind S U = (U, snd S)"

subsection \<open>Raw operators and the module that provides them\<close>

text \<open>
  A function pointer is the address of a function; two function pointers compare equal when
  they hold the same address. \<^verbatim>\<open>void*\<close> and object pointers are addresses as well, and
  the null pointer is address \<open>0\<close>.
\<close>

type_synonym address = nat
type_synonym fp_raw_allocate_t = address
type_synonym fp_raw_deallocate_t = address
type_synonym raw_operators = "fp_raw_allocate_t \<times> fp_raw_deallocate_t"

definition null :: address where
  "null = 0"

text \<open>
  The global operators \<^verbatim>\<open>::operator new\<close>, \<^verbatim>\<open>::operator new[]\<close>,
  \<^verbatim>\<open>::operator delete\<close> and \<^verbatim>\<open>::operator delete[]\<close> a translation unit sees: those
  of the module it is linked into. \<^verbatim>\<open>fetch_raw_operators\<close> is an inline function, so the
  operators it names are those of the module whose code calls it.
\<close>

record translation_unit =
  operator_new :: fp_raw_allocate_t
  operator_new_array :: fp_raw_allocate_t
  operator_delete :: fp_raw_deallocate_t
  operator_delete_array :: fp_raw_deallocate_t

definition fetch_raw_operators :: "translation_unit \<Rightarrow> bool \<Rightarrow> raw_operators" where
  "fetch_raw_operators tu is_array_alloc =
     (if is_array_alloc then operator_new_array tu else operator_new tu,
      if is_array_alloc then operator_delete_array tu else operator_delete tu)"

text \<open>\<^verbatim>\<open>operator==\<close> and \<^verbatim>\<open>operator!=\<close> of \<^verbatim>\<open>std::pair\<close>.\<close>

definition pair_eq :: "raw_operators \<Rightarrow> raw_operators \<Rightarrow> bool" where
  "pair_eq x y \<longleftrightarrow> fst x = fst y \<and> snd x = snd y"

definition pair_ne :: "raw_operators \<Rightarrow> raw_operators \<Rightarrow> bool" where
  "pair_ne x y \<longleftrightarrow> \<not> pair_eq x y"

subsection \<open>Allocator objects and the state of the program\<close>

text \<open>
  An allocator object holds \<^verbatim>\<open>m_raw_operators\<close>; its \<^verbatim>\<open>std::allocator\<close> base has no
  data. Objects are told apart by their address (\<^verbatim>\<open>this != &rOther\<close>), so the state of
  the program maps addresses to allocator objects. It also holds the state of the hosting
  runtime's heaps, which only the raw functions touch, and the calls made to raw functions
  so far.
\<close>

record allocator =
  m_raw_operators :: raw_operators

datatype 's call =
    Call_allocate fp_raw_allocate_t 's
  | Call_deallocate fp_raw_deallocate_t address

record ('s, 'h) world =
  objects :: "address \<Rightarrow> allocator"
  heap :: 'h
  trace :: "'s call list"

text \<open>
  What calling through a raw function pointer does is given by the hosting runtime: the
  allocation function returns an address or throws \<^verbatim>\<open>std::bad_alloc\<close>.
\<close>

datatype exn = bad_alloc

record ('s, 'h) runtime =
  raw_allocate :: "fp_raw_allocate_t \<Rightarrow> 's \<Rightarrow> 'h \<Rightarrow> (exn + address) \<times> 'h"
  raw_deallocate :: "fp_raw_deallocate_t \<Rightarrow> address \<Rightarrow> 'h \<Rightarrow> 'h"

definition call_raw_allocate ::
  "('s, 'h) runtime \<Rightarrow> fp_raw_allocate_t \<Rightarrow> 's \<Rightarrow> ('s, 'h) world \<Rightarrow> (exn + address) \<times> ('s, 'h) world" where
  "call_raw_allocate rt fp n w =
     (case raw_allocate rt fp n (heap w) of
        (r, h') \<Rightarrow> (r, w\<lparr>heap := h', trace := trace w @ [Call_allocate fp n]\<rparr>))"

definition call_raw_deallocate ::
  "('s, 'h) runtime \<Rightarrow> fp_raw_deallocate_t \<Rightarrow> address \<Rightarrow> ('s, 'h) world \<Rightarrow> ('s, 'h) world" where
  "call_raw_deallocate rt fp p w =
     w\<lparr>heap := raw_deallocate rt fp p (heap w), trace := trace w @ [Call_deallocate fp p]\<rparr>"

text \<open>
  \<^verbatim>\<open>pointer\<close> is \<^verbatim>\<open>value_type*\<close>, where \<^verbatim>\<open>value_type\<close> is the element type of the
  \<^verbatim>\<open>std::allocator\<close> base. A typed pointer is a pointee type and an address;
  \<^verbatim>\<open>static_cast<pointer>\<close> from \<^verbatim>\<open>void*\<close> keeps the address.
\<close>

datatype pointer = Ptr cpp_type address

fun pointer_address :: "pointer \<Rightarrow> address" where
  "pointer_address (Ptr _ a) = a"

definition value_type :: "specialization \<Rightarrow> cpp_type" where
  "value_type S = remove_reference_and_all_extents (fst S)"

definition static_cast_pointer :: "specialization \<Rightarrow> address \<Rightarrow> pointer" where
  "static_cast_pointer S a = Ptr (value_type S) a"

subsection \<open>What the compiler rejects\<close>

text \<open>
  Instantiating a member template either fails with a diagnostic or yields the function.
  Two kinds of diagnostic occur in the header: a name that is not declared where it is used,
  and the failed assertion \<^verbatim>\<open>raw allocation type mismatch\<close> (as \<^verbatim>\<open>static_assert\<close>, or
  as the array of size \<open>-1\<close> that stands for it).
\<close>

datatype diagnostic =
    undeclared_identifier string
  | raw_allocation_type_mismatch

text \<open>Looking a name up among the declarations in scope.\<close>

definition lookup :: "(string \<times> 'a) list \<Rightarrow> string \<Rightarrow> diagnostic + 'a" where
  "lookup scope x =
     (case map_of scope x of
        None \<Rightarrow> Inl (undeclared_identifier x)
      | Some v \<Rightarrow> Inr v)"

definition static_assert :: "bool \<Rightarrow> diagnostic + unit" where
  "static_assert b = (if b then Inr () else Inl raw_allocation_type_mismatch)"

text \<open>
  The assertion the member templates share:
  \<^verbatim>\<open>is_array_allocation::value == A_other::is_array_allocation::value\<close>, with
  \<^verbatim>\<open>A_other\<close> looked up among the typedefs declared before it in the function body.
\<close>

definition kinds_must_match ::
  "(string \<times> specialization) list \<Rightarrow> specialization \<Rightarrow> diagnostic + unit" where
  "kinds_must_match typedefs S =
     (case lookup typedefs ''A_other'' of
        Inl d \<Rightarrow> Inl d
      | Inr A_other \<Rightarrow> static_assert (is_array_allocation S = is_array_allocation A_other))"

subsection \<open>\<^verbatim>\<open>modulebound_allocator_base\<close>\<close>

text \<open>
  Every member function takes the address \<open>this\<close> of its object; a reference parameter
  \<open>rOther\<close> is the address of the object referred to. \<open>tu\<close> is the translation unit the call
  is compiled in, \<open>S\<close> the specialization of the object, \<open>SU\<close> that of \<open>rOther\<close> in a member
  template.
\<close>

definition capture :: "translation_unit \<Rightarrow> specialization \<Rightarrow> allocator" where
  "capture tu S = \<lparr>m_raw_operators = fetch_raw_operators tu (is_array_allocation S)\<rparr>"

text \<open>\<^verbatim>\<open>get_raw_operators() const\<close>.\<close>

definition get_raw_operators :: "address \<Rightarrow> ('s, 'h) world \<Rightarrow> raw_operators \<times> ('s, 'h) world" where
  "get_raw_operators this w = (m_raw_operators (objects w this), w)"

text \<open>The default constructor.\<close>

definition base_default_ctor ::
  "translation_unit \<Rightarrow> specialization \<Rightarrow> address \<Rightarrow> ('s, 'h) world \<Rightarrow> ('s, 'h) world" where
  "base_default_ctor tu S this w = w\<lparr>objects := (objects w)(this := capture tu S)\<rparr>"

text \<open>The copy constructor and the copy assignment operator.\<close>

definition base_copy_ctor ::
  "translation_unit \<Rightarrow> specialization \<Rightarrow> address \<Rightarrow> address \<Rightarrow> ('s, 'h) world \<Rightarrow> ('s, 'h) world" where
  "base_copy_ctor tu S this rOther w = w\<lparr>objects := (objects w)(this := capture tu S)\<rparr>"

definition base_copy_assign ::
  "translation_unit \<Rightarrow> specialization \<Rightarrow> address \<Rightarrow> address \<Rightarrow> ('s, 'h) world \<Rightarrow> ('s, 'h) world" where
  "base_copy_assign tu S this rOther w =
     (if this \<noteq> rOther
      then w\<lparr>objects := (objects w)
               (this := (objects w this)\<lparr>m_raw_operators := fetch_raw_operators tu (is_array_allocation S)\<rparr>)\<rparr>
      else w)"

text \<open>
  The copy constructor and the copy assignment operator from another specialization. The
  constructor declares \<^verbatim>\<open>A_other\<close> in the branch of the conditional that is compiled when
  \<^verbatim>\<open>_MSC_VER >= 1600\<close> does not hold, and uses it in both; the assignment operator
  declares it before the conditional, whose two branches state the same assertion.
  \<open>msc_ver\<close> is the value of \<^verbatim>\<open>_MSC_VER\<close>, \<open>0\<close> where the macro is not defined.
\<close>

definition base_copy_ctor_cross ::
  "nat \<Rightarrow> translation_unit \<Rightarrow> specialization \<Rightarrow> specialization \<Rightarrow> address \<Rightarrow> address \<Rightarrow>
   ('s, 'h) world \<Rightarrow> diagnostic + ('s, 'h) world" where
  "base_copy_ctor_cross msc_ver tu S SU this rOther w =
     (case kinds_must_match (if 1600 \<le> msc_ver then [] else [(''A_other'', SU)]) S of
        Inl d \<Rightarrow> Inl d
      | Inr _ \<Rightarrow> Inr (w\<lparr>objects := (objects w)(this := capture tu S)\<rparr>))"

definition base_copy_assign_cross ::
  "translation_unit \<Rightarrow> specialization \<Rightarrow> specialization \<Rightarrow> address \<Rightarrow> address \<Rightarrow>
   ('s, 'h) world \<Rightarrow> diagnostic + ('s, 'h) world" where
  "base_copy_assign_cross tu S SU this rOther w =
     (case kinds_must_match [(''A_other'', SU)] S of
        Inl d \<Rightarrow> Inl d
      | Inr _ \<Rightarrow>
          Inr (if this \<noteq> rOther
               then w\<lparr>objects := (objects w)
                        (this := (objects w this)\<lparr>m_raw_operators := fetch_raw_operators tu (is_array_allocation S)\<rparr>)\<rparr>
               else w))"

text \<open>
  The move constructors and move assignment operators, which the header declares when
  \<^verbatim>\<open>_MSC_VER >= 1600\<close>. They read the operators of \<open>rOther\<close> and write only \<open>this\<close>.
\<close>

definition base_move_ctor :: "address \<Rightarrow> address \<Rightarrow> ('s, 'h) world \<Rightarrow> ('s, 'h) world" where
  "base_move_ctor this rOther w =
     (case get_raw_operators rOther w of
        (ops, w') \<Rightarrow> w'\<lparr>objects := (objects w')(this := \<lparr>m_raw_operators = ops\<rparr>)\<rparr>)"

definition base_move_assign :: "address \<Rightarrow> address \<Rightarrow> ('s, 'h) world \<Rightarrow> ('s, 'h) world" where
  "base_move_assign this rOther w =
     (if this \<noteq> rOther
      then (case get_raw_operators rOther w of
              (ops, w') \<Rightarrow> w'\<lparr>objects := (objects w')(this := (objects w' this)\<lparr>m_raw_operators := ops\<rparr>)\<rparr>)
      else w)"

definition base_move_ctor_cross ::
  "specialization \<Rightarrow> specialization \<Rightarrow> address \<Rightarrow> address \<Rightarrow> ('s, 'h) world \<Rightarrow>
   diagnostic + ('s, 'h) world" where
  "base_move_ctor_cross S SU this rOther w =
     (case kinds_must_match [(''A_other'', SU)] S of
        Inl d \<Rightarrow> Inl d
      | Inr _ \<Rightarrow> Inr (base_move_ctor this rOther w))"

definition base_move_assign_cross ::
  "specialization \<Rightarrow> specialization \<Rightarrow> address \<Rightarrow> address \<Rightarrow> ('s, 'h) world \<Rightarrow>
   diagnostic + ('s, 'h) world" where
  "base_move_assign_cross S SU this rOther w =
     (case kinds_must_match [(''A_other'', SU)] S of
        Inl d \<Rightarrow> Inl d
      | Inr _ \<Rightarrow> Inr (base_move_assign this rOther w))"

subsection \<open>\<^verbatim>\<open>modulebound_allocator\<close>\<close>

text \<open>
  The constructors and assignment operators of the derived class pass their argument on to
  the base class. The member template for move assignment from another specialization names
  its parameter \<^verbatim>\<open>rOther\<close> and passes \<^verbatim>\<open>Other\<close>. The specialization for \<^verbatim>\<open>void\<close>
  declares the same constructors and assignment operators with the same bodies, and neither
  \<^verbatim>\<open>allocate\<close> nor \<^verbatim>\<open>deallocate\<close>.
\<close>

definition default_ctor ::
  "translation_unit \<Rightarrow> specialization \<Rightarrow> address \<Rightarrow> ('s, 'h) world \<Rightarrow> ('s, 'h) world" where
  "default_ctor tu S this w = base_default_ctor tu S this w"

definition copy_ctor_cross ::
  "nat \<Rightarrow> translation_unit \<Rightarrow> specialization \<Rightarrow> specialization \<Rightarrow> address \<Rightarrow> address \<Rightarrow>
   ('s, 'h) world \<Rightarrow> diagnostic + ('s, 'h) world" where
  "copy_ctor_cross msc_ver tu S SU this rOther w = base_copy_ctor_cross msc_ver tu S SU this rOther w"

definition copy_assign_cross ::
  "translation_unit \<Rightarrow> specialization \<Rightarrow> specialization \<Rightarrow> address \<Rightarrow> address \<Rightarrow>
   ('s, 'h) world \<Rightarrow> diagnostic + ('s, 'h) world" where
  "copy_assign_cross tu S SU this rOther w = base_copy_assign_cross tu S SU this rOther w"

definition move_ctor :: "address \<Rightarrow> address \<Rightarrow> ('s, 'h) world \<Rightarrow> ('s, 'h) world" where
  "move_ctor this rOther w = base_move_ctor this rOther w"

definition move_assign :: "address \<Rightarrow> address \<Rightarrow> ('s, 'h) world \<Rightarrow> ('s, 'h) world" where
  "move_assign this rOther w = base_move_assign this rOther w"

definition move_ctor_cross ::
  "specialization \<Rightarrow> specialization \<Rightarrow> address \<Rightarrow> address \<Rightarrow> ('s, 'h) world \<Rightarrow>
   diagnostic + ('s, 'h) world" where
  "move_ctor_cross S SU this rOther w = base_move_ctor_cross S SU this rOther w"

definition move_assign_cross ::
  "specialization \<Rightarrow> specialization \<Rightarrow> address \<Rightarrow> address \<Rightarrow> ('s, 'h) world \<Rightarrow>
   diagnostic + ('s, 'h) world" where
  "move_assign_cross S SU this rOther w =
     (case lookup [(''rOther'', rOther)] ''Other'' of
        Inl d \<Rightarrow> Inl d
      | Inr Other \<Rightarrow> base_move_assign_cross S SU this Other w)"

text \<open>
  \<^verbatim>\<open>allocate(nCount)\<close>: \<open>sizeof\<close> gives the size of a type as a \<^verbatim>\<open>size_type\<close> value, a
  machine word, so the product is taken in \<^verbatim>\<open>size_type\<close>. An exception of the raw
  function passes through.
\<close>

definition allocate ::
  "('w::len word, 'h) runtime \<Rightarrow> (cpp_type \<Rightarrow> 'w word) \<Rightarrow> specialization \<Rightarrow> address \<Rightarrow> 'w word \<Rightarrow>
   ('w word, 'h) world \<Rightarrow> (exn + pointer) \<times> ('w word, 'h) world" where
  "allocate rt sizeof S this nCount w =
     (case get_raw_operators this w of
        (ops, w1) \<Rightarrow>
          (case call_raw_allocate rt (fst ops) (sizeof (value_type S) * nCount) w1 of
             (r, w2) \<Rightarrow> (map_sum id (static_cast_pointer S) r, w2)))"

text \<open>\<^verbatim>\<open>allocate(nCount, hint)\<close>; the hint is a \<^verbatim>\<open>const void*\<close>.\<close>

definition allocate_hint ::
  "('w::len word, 'h) runtime \<Rightarrow> (cpp_type \<Rightarrow> 'w word) \<Rightarrow> specialization \<Rightarrow> address \<Rightarrow> 'w word \<Rightarrow>
   address \<Rightarrow> ('w word, 'h) world \<Rightarrow> (exn + pointer) \<times> ('w word, 'h) world" where
  "allocate_hint rt sizeof S this nCount hint w = allocate rt sizeof S this nCount w"

text \<open>\<^verbatim>\<open>deallocate(p, size_type)\<close>; the pointer converts to \<^verbatim>\<open>void*\<close>.\<close>

definition deallocate ::
  "('s, 'h) runtime \<Rightarrow> address \<Rightarrow> pointer \<Rightarrow> 's \<Rightarrow> ('s, 'h) world \<Rightarrow> ('s, 'h) world" where
  "deallocate rt this p n w =
     (case get_raw_operators this w of
        (ops, w1) \<Rightarrow> call_raw_deallocate rt (snd ops) (pointer_address p) w1)"

text \<open>\<^verbatim>\<open>operator==\<close> and \<^verbatim>\<open>operator!=\<close>, for allocators of any two specializations.\<close>

definition operator_eq :: "address \<Rightarrow> address \<Rightarrow> ('s, 'h) world \<Rightarrow> bool" where
  "operator_eq rLeft rRight w \<longleftrightarrow>
     pair_eq (fst (get_raw_operators rLeft w)) (fst (get_raw_operators rRight w))"

definition operator_ne :: "address \<Rightarrow> address \<Rightarrow> ('s, 'h) world \<Rightarrow> bool" where
  "operator_ne rLeft rRight w \<longleftrightarrow>
     pair_ne (fst (get_raw_operators rLeft w)) (fst (get_raw_operators rRight w))"

subsection \<open>Two modules, a runtime and a program state to compute with\<close>

text \<open>
  Two modules with operators at different addresses, a runtime whose heap is the list of live
  blocks and whose deallocation function does nothing for the null pointer, a 64-bit
  \<^verbatim>\<open>size_type\<close> with every element eight bytes wide, and a state whose allocator objects
  all hold the single-object operators of the second module.
\<close>

definition module_a :: translation_unit where
  "module_a = \<lparr>operator_new = 100, operator_new_array = 101,
                operator_delete = 102, operator_delete_array = 103\<rparr>"

definition module_b :: translation_unit where
  "module_b = \<lparr>operator_new = 200, operator_new_array = 201,
                operator_delete = 202, operator_delete_array = 203\<rparr>"

definition bump_runtime :: "(64 word, address list) runtime" where
  "bump_runtime =
     \<lparr>raw_allocate = (\<lambda>fp n h. (Inr (Suc (length h)), Suc (length h) # h)),
      raw_deallocate = (\<lambda>fp p h. if p = null then h else remove1 p h)\<rparr>"

definition sizeof8 :: "cpp_type \<Rightarrow> 64 word" where
  "sizeof8 T = 8"

definition initial_world :: "(64 word, address list) world" where
  "initial_world =
     \<lparr>objects = (\<lambda>a. capture module_b (Void, raw_allocation_single)), heap = [], trace = []\<rparr>"

definition int_type :: cpp_type where
  "int_type = Named ''int'' False"

definition char_type :: cpp_type where
  "char_type = Named ''char'' False"

section \<open>Properties\<close>

subsection \<open>Resolution of the allocation kind\<close>

lemma is_array_strip_const: "is_array (strip_const T) = is_array T"
  by (cases T) simp_all

lemma is_reference_strip_const: "is_reference (strip_const T) = is_reference T"
  by (cases T) simp_all

lemma is_array_remove_reference:
  "is_array T \<longleftrightarrow> is_array (remove_reference T) \<and> \<not> is_reference T"
  by (cases T) simp_all

lemma differ_only_in_constness_included:
  "differ_only_in_constness T U \<Longrightarrow> differ_only_in_constness_or_value_category T U"
  unfolding differ_only_in_constness_def differ_only_in_constness_or_value_category_def
  by (cases T; cases U) simp_all

lemma differ_only_in_value_category_included:
  "differ_only_in_value_category T U \<Longrightarrow> differ_only_in_constness_or_value_category T U"
  unfolding differ_only_in_value_category_def differ_only_in_constness_or_value_category_def
  by simp

lemma differ_only_in_constness_same_reference:
  "differ_only_in_constness T U \<Longrightarrow> is_reference T = is_reference U"
  unfolding differ_only_in_constness_def
  by (metis is_reference_strip_const)

lemma default_RawAllocation_kind:
  "is_array_allocation (T, default_RawAllocation T) = is_array T"
  by (simp add: is_array_allocation_def default_RawAllocation_def)

text \<open>
  Claim C6. The resolved kind is single-object (\<open>False\<close>) under the policy
  \<^verbatim>\<open>raw_allocation_single\<close>, array (\<open>True\<close>) under \<^verbatim>\<open>raw_allocation_array\<close>, and under
  \<^verbatim>\<open>raw_allocation_deduce\<close> it is array exactly when the element type is an array type.
  \<^verbatim>\<open>rebind<U>\<close> gives the specialization for \<open>U\<close> with the same policy, so the kind is
  resolved anew from \<open>U\<close>: rebinding a deducing allocator for an array type gives the
  array kind exactly when \<open>U\<close> is an array type, and a pinned policy stays pinned.
\<close>

theorem kind_resolution:
  "is_array_allocation (T, raw_allocation_single) = False
   \<and> is_array_allocation (T, raw_allocation_array) = True
   \<and> is_array_allocation (T, raw_allocation_deduce) = is_array T
   \<and> rebind (T, RA) U = (U, RA)
   \<and> is_array_allocation (rebind (Array E n, raw_allocation_deduce) U) = is_array U
   \<and> is_array_allocation (rebind (T, raw_allocation_single) U) = False
   \<and> is_array_allocation (rebind (T, raw_allocation_array) U) = True"
  by (simp add: is_array_allocation_def rebind_def)

text \<open>
  Claim C8, as the code has it. For two specializations with the same policy whose element
  types differ in nothing but constness and value category, the resolved kinds are equal
  exactly when the policy is not \<^verbatim>\<open>raw_allocation_deduce\<close>, or the element type with its
  reference removed is not an array type, or both element types are references or neither
  is. Element types that differ only in constness are never one a reference and the other
  not (\<open>differ_only_in_constness_same_reference\<close>), so their kinds are always equal.
\<close>

theorem kind_invariance:
  assumes "differ_only_in_constness_or_value_category T U"
  shows "is_array_allocation (T, RA) = is_array_allocation (U, RA) \<longleftrightarrow>
           RA \<noteq> raw_allocation_deduce \<or> \<not> is_array (remove_reference T)
           \<or> is_reference T = is_reference U"
proof -
  from assms
  have "is_array (strip_const (remove_reference T)) = is_array (strip_const (remove_reference U))"
    by (simp add: differ_only_in_constness_or_value_category_def)
  then have same: "is_array (remove_reference T) = is_array (remove_reference U)"
    by (simp add: is_array_strip_const)
  show ?thesis
  proof (cases RA)
    case raw_allocation_deduce
    then show ?thesis
      using same is_array_remove_reference [of T] is_array_remove_reference [of U]
      by (auto simp: is_array_allocation_def)
  qed (simp_all add: is_array_allocation_def)
qed

text \<open>
  The array types \<^verbatim>\<open>const int[3]\<close> and \<^verbatim>\<open>int[3]\<close> differ only in constness, and both
  resolve to the array kind under the deducing policy.
\<close>

theorem kind_invariance_witness:
  "differ_only_in_constness_or_value_category
     (Array (Named ''int'' True) (Some 3)) (Array (Named ''int'' False) (Some 3))
   \<and> is_array_allocation (Array (Named ''int'' True) (Some 3), raw_allocation_deduce)
   \<and> is_array_allocation (Array (Named ''int'' False) (Some 3), raw_allocation_deduce)"
  using kind_invariance [of "Array (Named ''int'' True) (Some 3)"
      "Array (Named ''int'' False) (Some 3)" raw_allocation_deduce]
  by (simp add: differ_only_in_constness_or_value_category_def is_array_allocation_def)

text \<open>
  \<^verbatim>\<open>int[3]\<close> and \<^verbatim>\<open>int(&)[3]\<close> differ only in value category, yet under the deducing
  policy the first resolves to the array kind and the second to the single-object kind:
  \<^verbatim>\<open>std::is_array\<close> is asked about the element type as given, reference included.
\<close>

theorem kind_of_reference_to_array_counterexample:
  "differ_only_in_value_category (Array int_type (Some 3)) (LRef (Array int_type (Some 3)))
   \<and> is_array_allocation (Array int_type (Some 3), raw_allocation_deduce)
   \<and> \<not> is_array_allocation (LRef (Array int_type (Some 3)), raw_allocation_deduce)"
  by (simp add: differ_only_in_value_category_def is_array_allocation_def)

subsection \<open>Capture on construction, copy and assignment\<close>

lemma default_ctor_captures:
  "m_raw_operators (objects (default_ctor tu S this w) this)
     = fetch_raw_operators tu (is_array_allocation S)"
  by (simp add: default_ctor_def base_default_ctor_def capture_def)

lemma default_ctor_same_context_equal:
  "operator_eq a b (default_ctor tu S b (default_ctor tu S a w))"
  by (simp add: operator_eq_def pair_eq_def get_raw_operators_def default_ctor_def
      base_default_ctor_def)

text \<open>
  Claim C1. For every specialization, the copy constructor gives the new object the pair
  fetched in the translation unit of the call, whatever pair the source holds. Copy
  assignment between two distinct objects stores the pair fetched in the same way, and copy
  assignment of an object to itself leaves the whole state as it was.
\<close>

theorem copy_recaptures:
  "m_raw_operators (objects (base_copy_ctor tu S this rOther w) this)
     = fetch_raw_operators tu (is_array_allocation S)
   \<and> (this \<noteq> rOther \<longrightarrow>
        m_raw_operators (objects (base_copy_assign tu S this rOther w) this)
          = fetch_raw_operators tu (is_array_allocation S))
   \<and> base_copy_assign tu S this this w = w"
  by (simp add: base_copy_ctor_def base_copy_assign_def capture_def)

text \<open>
  The source at address 2 holds the operators of the second module; a copy made in the
  first module holds the operators of the first.
\<close>

theorem copy_recaptures_witness:
  "(1::address) \<noteq> 2
   \<and> m_raw_operators (objects initial_world 2) = (200, 202)
   \<and> m_raw_operators
        (objects (base_copy_ctor module_a (int_type, raw_allocation_single) 1 2 initial_world) 1)
       = (100, 102)
   \<and> m_raw_operators
        (objects (base_copy_assign module_a (int_type, raw_allocation_single) 1 2 initial_world) 1)
       = (100, 102)
   \<and> base_copy_assign module_a (int_type, raw_allocation_single) 1 1 initial_world = initial_world"
  using copy_recaptures [of module_a "(int_type, raw_allocation_single)" 1 2 initial_world]
  by (simp add: initial_world_def module_a_def module_b_def capture_def fetch_raw_operators_def
      is_array_allocation_def int_type_def base_copy_assign_def)

subsection \<open>Move construction and move assignment\<close>

lemma base_move_ctor_copies:
  "m_raw_operators (objects (base_move_ctor this rOther w) this) = m_raw_operators (objects w rOther)
   \<and> m_raw_operators (objects (base_move_ctor this rOther w) rOther)
       = m_raw_operators (objects w rOther)"
  by (simp add: base_move_ctor_def get_raw_operators_def)

lemma base_move_assign_copies:
  "m_raw_operators (objects (base_move_assign this rOther w) this) = m_raw_operators (objects w rOther)
   \<and> m_raw_operators (objects (base_move_assign this rOther w) rOther)
       = m_raw_operators (objects w rOther)"
  by (simp add: base_move_assign_def get_raw_operators_def)

lemma move_ctor_copies:
  "m_raw_operators (objects (move_ctor this rOther w) this) = m_raw_operators (objects w rOther)
   \<and> m_raw_operators (objects (move_ctor this rOther w) rOther) = m_raw_operators (objects w rOther)"
  by (simp add: move_ctor_def base_move_ctor_copies)

lemma move_assign_copies:
  "m_raw_operators (objects (move_assign this rOther w) this) = m_raw_operators (objects w rOther)
   \<and> m_raw_operators (objects (move_assign this rOther w) rOther) = m_raw_operators (objects w rOther)"
  by (simp add: move_assign_def base_move_assign_copies)

lemma kinds_must_match_declared:
  "kinds_must_match [(''A_other'', SU)] S =
     (if is_array_allocation S = is_array_allocation SU
      then Inr () else Inl raw_allocation_type_mismatch)"
  by (simp add: kinds_must_match_def lookup_def static_assert_def)

lemma kinds_must_match_undeclared:
  "kinds_must_match [] S = Inl (undeclared_identifier ''A_other'')"
  by (simp add: kinds_must_match_def lookup_def)

lemma move_cross_accepted:
  "is_array_allocation S = is_array_allocation SU \<Longrightarrow>
     base_move_ctor_cross S SU this rOther w = Inr (base_move_ctor this rOther w)
     \<and> move_ctor_cross S SU this rOther w = Inr (base_move_ctor this rOther w)
     \<and> base_move_assign_cross S SU this rOther w = Inr (base_move_assign this rOther w)"
  by (simp add: base_move_ctor_cross_def move_ctor_cross_def base_move_assign_cross_def
      kinds_must_match_declared)


text \<open>
  Claim C3. The move constructors and the move assignment operators of the base class store
  the pair of the source in the target and leave the source as it was (the four lemmas
  above, and \<open>move_cross_accepted\<close> for another specialization of the same kind). Move
  assignment from another specialization through \<^verbatim>\<open>modulebound_allocator\<close> does not get
  that far: its body names \<^verbatim>\<open>Other\<close>, which is not declared, so instantiating it for
  \<^verbatim>\<open>modulebound_allocator<int>\<close> and \<^verbatim>\<open>modulebound_allocator<char>\<close> is rejected, where the
  operator of the base class it means to call copies the pair of the source.
\<close>

theorem move_assign_cross_rejected:
  "move_assign_cross (int_type, raw_allocation_single) (char_type, raw_allocation_single)
       1 2 initial_world
     = Inl (undeclared_identifier ''Other'')
   \<and> base_move_assign_cross (int_type, raw_allocation_single) (char_type, raw_allocation_single)
       1 2 initial_world
     = Inr (initial_world\<lparr>objects := (objects initial_world)(1 := objects initial_world 2)\<rparr>)"
  by (simp add: move_assign_cross_def lookup_def base_move_assign_cross_def
      kinds_must_match_declared is_array_allocation_def base_move_assign_def
      get_raw_operators_def initial_world_def)

subsection \<open>Specializations of different kinds\<close>

lemma rejection_decided_by_the_specializations:
  "isl (base_copy_ctor_cross msc_ver tu S SU this rOther w)
     = isl (base_copy_ctor_cross msc_ver tu' S SU this' rOther' w')
   \<and> isl (base_copy_assign_cross tu S SU this rOther w)
     = isl (base_copy_assign_cross tu' S SU this' rOther' w')
   \<and> isl (base_move_ctor_cross S SU this rOther w) = isl (base_move_ctor_cross S SU this' rOther' w')
   \<and> isl (base_move_assign_cross S SU this rOther w)
     = isl (base_move_assign_cross S SU this' rOther' w')"
  by (simp add: base_copy_ctor_cross_def base_copy_assign_cross_def base_move_ctor_cross_def
      base_move_assign_cross_def kinds_must_match_declared kinds_must_match_undeclared)

text \<open>
  Where the names of the function resolve, the assertion on the kinds rejects a copy or move
  from a specialization of the other kind, whatever the objects and the state: in the copy
  constructor compiled without \<^verbatim>\<open>_MSC_VER >= 1600\<close>, in copy assignment, in the move
  constructor and in the move assignment operator of the base class.
\<close>

lemma kind_assertion_rejects_mismatch:
  assumes "is_array_allocation S \<noteq> is_array_allocation SU"
  shows "(msc_ver < 1600 \<longrightarrow>
          base_copy_ctor_cross msc_ver tu S SU this rOther w = Inl raw_allocation_type_mismatch
          \<and> copy_ctor_cross msc_ver tu S SU this rOther w = Inl raw_allocation_type_mismatch)
     \<and> base_copy_assign_cross tu S SU this rOther w = Inl raw_allocation_type_mismatch
     \<and> copy_assign_cross tu S SU this rOther w = Inl raw_allocation_type_mismatch
     \<and> base_move_ctor_cross S SU this rOther w = Inl raw_allocation_type_mismatch
     \<and> move_ctor_cross S SU this rOther w = Inl raw_allocation_type_mismatch
     \<and> base_move_assign_cross S SU this rOther w = Inl raw_allocation_type_mismatch"
  using assms
  by (simp add: base_copy_ctor_cross_def copy_ctor_cross_def base_copy_assign_cross_def
      copy_assign_cross_def base_move_ctor_cross_def move_ctor_cross_def
      base_move_assign_cross_def kinds_must_match_declared)

text \<open>
  In the copy constructor compiled with \<^verbatim>\<open>_MSC_VER >= 1600\<close> the assertion names
  \<^verbatim>\<open>A_other\<close>, which is declared in the other branch of the conditional only, so the
  constructor is rejected for that name whether the kinds differ or not.
\<close>

lemma copy_ctor_cross_undeclared:
  "1600 \<le> msc_ver \<Longrightarrow>
     base_copy_ctor_cross msc_ver tu S SU this rOther w = Inl (undeclared_identifier ''A_other'')
     \<and> copy_ctor_cross msc_ver tu S SU this rOther w = Inl (undeclared_identifier ''A_other'')"
  by (simp add: base_copy_ctor_cross_def copy_ctor_cross_def kinds_must_match_undeclared)


subsection \<open>Allocation and deallocation\<close>

lemma allocate_unfold:
  fixes rt :: "('w::len word, 'h) runtime"
  shows "allocate rt sizeof S this nCount w =
     (case raw_allocate rt (fst (m_raw_operators (objects w this)))
             (sizeof (remove_reference_and_all_extents (fst S)) * nCount) (heap w) of
        (r, h') \<Rightarrow>
          (case r of Inl e \<Rightarrow> Inl e
                   | Inr a \<Rightarrow> Inr (Ptr (remove_reference_and_all_extents (fst S)) a),
           w\<lparr>heap := h',
              trace := trace w @ [Call_allocate (fst (m_raw_operators (objects w this)))
                        (sizeof (remove_reference_and_all_extents (fst S)) * nCount)]\<rparr>))"
  by (simp add: allocate_def get_raw_operators_def call_raw_allocate_def value_type_def
      static_cast_pointer_def split: prod.split sum.split)

text \<open>
  Claim C4, as the code has it. \<^verbatim>\<open>allocate(nCount)\<close> calls the captured allocation
  function once, with the product of \<^verbatim>\<open>sizeof\<close> of the element type (reference and all
  extents removed) and \<open>nCount\<close> taken in \<^verbatim>\<open>size_type\<close>: the product modulo
  \<open>2 ^ w\<close> for a \<^verbatim>\<open>size_type\<close> of \<open>w\<close> bits, which is the product itself when that is
  below \<open>2 ^ w\<close>. It returns the address the function returns as a pointer to the element
  type, and passes its exception on. \<^verbatim>\<open>allocate(nCount, hint)\<close> is \<^verbatim>\<open>allocate(nCount)\<close>
  for every hint.
\<close>

theorem allocate_request:
  fixes rt :: "('w::len word, 'h) runtime"
  shows "allocate rt sizeof S this nCount w =
     (case raw_allocate rt (fst (m_raw_operators (objects w this)))
             (sizeof (remove_reference_and_all_extents (fst S)) * nCount) (heap w) of
        (r, h') \<Rightarrow>
          (case r of Inl e \<Rightarrow> Inl e
                   | Inr a \<Rightarrow> Inr (Ptr (remove_reference_and_all_extents (fst S)) a),
           w\<lparr>heap := h',
              trace := trace w @ [Call_allocate (fst (m_raw_operators (objects w this)))
                        (sizeof (remove_reference_and_all_extents (fst S)) * nCount)]\<rparr>))
   \<and> unat (sizeof (remove_reference_and_all_extents (fst S)) * nCount)
       = (unat (sizeof (remove_reference_and_all_extents (fst S))) * unat nCount) mod 2 ^ LENGTH('w)
   \<and> (unat (sizeof (remove_reference_and_all_extents (fst S))) * unat nCount < 2 ^ LENGTH('w) \<longrightarrow>
        unat (sizeof (remove_reference_and_all_extents (fst S)) * nCount)
          = unat (sizeof (remove_reference_and_all_extents (fst S))) * unat nCount)
   \<and> allocate_hint rt sizeof S this nCount hint w = allocate rt sizeof S this nCount w"
  by (simp add: allocate_unfold allocate_hint_def unat_word_ariths)

text \<open>
  Four elements of eight bytes for an allocator of \<^verbatim>\<open>int[3]\<close>: one call for 32 bytes, and
  the block as an \<^verbatim>\<open>int*\<close>.
\<close>

theorem allocate_request_witness:
  "unat (sizeof8 (remove_reference_and_all_extents (fst (Array int_type (Some 3), raw_allocation_array))))
       * unat (4 :: 64 word) < 2 ^ LENGTH(64)
   \<and> allocate bump_runtime sizeof8 (Array int_type (Some 3), raw_allocation_array) 1 4 initial_world
      = (Inr (Ptr int_type 1), initial_world\<lparr>heap := [1], trace := [Call_allocate 200 32]\<rparr>)"
  using allocate_request [where rt = bump_runtime and sizeof = sizeof8
      and S = "(Array int_type (Some 3), raw_allocation_array)" and nCount = 4 and this = 1
      and w = initial_world and hint = 0]
  by (simp add: sizeof8_def remove_reference_and_all_extents_def bump_runtime_def
      initial_world_def capture_def fetch_raw_operators_def is_array_allocation_def module_b_def
      int_type_def)

text \<open>
  With a 64-bit \<^verbatim>\<open>size_type\<close> and elements of eight bytes, \<^verbatim>\<open>allocate(2 ^ 61)\<close> calls
  the allocation function with \<open>0\<close>, which is not eight times \<open>2 ^ 61\<close>.
\<close>

theorem allocate_request_wraps_counterexample:
  "trace (snd (allocate bump_runtime sizeof8 (int_type, raw_allocation_single) 1 (2 ^ 61)
                 initial_world))
     = [Call_allocate 200 0]
   \<and> unat (0 :: 64 word)
       \<noteq> unat (sizeof8 (value_type (int_type, raw_allocation_single))) * unat ((2 :: 64 word) ^ 61)"
  by (simp add: allocate_unfold sizeof8_def initial_world_def bump_runtime_def capture_def
      fetch_raw_operators_def is_array_allocation_def module_b_def value_type_def)

text \<open>
  Claim C5. \<^verbatim>\<open>deallocate(p, n)\<close> calls the captured deallocation function once, with the
  address of \<open>p\<close> and nothing else, and does the same for every \<open>n\<close>. For a null \<open>p\<close> it
  calls the function with null all the same; where the function leaves the heap alone for
  null, the call is all that happens.
\<close>

theorem deallocate_forwards:
  "deallocate rt this p n w =
     w\<lparr>heap := raw_deallocate rt (snd (m_raw_operators (objects w this))) (pointer_address p) (heap w),
       trace := trace w @ [Call_deallocate (snd (m_raw_operators (objects w this))) (pointer_address p)]\<rparr>
   \<and> deallocate rt this p n w = deallocate rt this p n' w
   \<and> (pointer_address p = null \<longrightarrow>
        raw_deallocate rt (snd (m_raw_operators (objects w this))) null (heap w) = heap w \<longrightarrow>
        deallocate rt this p n w
          = w\<lparr>trace := trace w @ [Call_deallocate (snd (m_raw_operators (objects w this))) null]\<rparr>)"
  by (simp add: deallocate_def get_raw_operators_def call_raw_deallocate_def)

text \<open>\<^verbatim>\<open>deallocate(null, 4)\<close> on an allocator holding the operators of the second module.\<close>

theorem deallocate_forwards_witness:
  "pointer_address (Ptr int_type null) = null
   \<and> raw_deallocate bump_runtime (snd (m_raw_operators (objects initial_world 1))) null
        (heap initial_world) = heap initial_world
   \<and> deallocate bump_runtime 1 (Ptr int_type null) 4 initial_world
       = initial_world\<lparr>trace := [Call_deallocate 202 null]\<rparr>"
  using deallocate_forwards [of bump_runtime 1 "Ptr int_type null" 4 initial_world 4]
  by (simp add: bump_runtime_def initial_world_def capture_def fetch_raw_operators_def
      is_array_allocation_def module_b_def)

text \<open>
  Claim C9. \<^verbatim>\<open>allocate\<close>, with or without hint, and \<^verbatim>\<open>deallocate\<close> leave every
  allocator object as it was, and \<^verbatim>\<open>get_raw_operators\<close> leaves the whole state as it was.
\<close>

theorem operators_not_modified:
  fixes rt :: "('w::len word, 'h) runtime"
  shows "objects (snd (allocate rt sizeof S this nCount w)) = objects w
   \<and> objects (snd (allocate_hint rt sizeof S this nCount hint w)) = objects w
   \<and> objects (deallocate rt this p n w) = objects w
   \<and> snd (get_raw_operators this w) = w"
  by (simp add: allocate_def allocate_hint_def deallocate_def get_raw_operators_def
      call_raw_allocate_def call_raw_deallocate_def split: prod.split)

subsection \<open>Equality\<close>

text \<open>
  Claim C2. Two allocators, of whatever specializations, compare equal exactly when their
  allocation functions are the same address and their deallocation functions are the same
  address.
\<close>

theorem equality_is_pair_identity:
  "operator_eq a b w \<longleftrightarrow>
     fst (m_raw_operators (objects w a)) = fst (m_raw_operators (objects w b))
     \<and> snd (m_raw_operators (objects w a)) = snd (m_raw_operators (objects w b))"
  by (simp add: operator_eq_def pair_eq_def get_raw_operators_def)

text \<open>
  Claim C10. \<^verbatim>\<open>a != b\<close> is the negation of \<^verbatim>\<open>a == b\<close> for every two allocators in
  every state.
\<close>

theorem inequality_is_negated_equality:
  "operator_ne a b w \<longleftrightarrow> \<not> operator_eq a b w"
  by (simp add: operator_ne_def operator_eq_def pair_ne_def)

end
